theory Spec2Isabelle
  imports Main
begin

section \<open>The activity board of \<open>src/static/app.js\<close>\<close>

text \<open>
  The script is one \<open>DOMContentLoaded\<close> handler holding three asynchronous functions:
  \<open>fetchActivities\<close>, \<open>handleDelete\<close> and the form's \<open>submit\<close> handler. The model keeps
  their names. The document, the remote calls issued, the pending timers and the console are
  the fields of one record that every function takes and returns. What the environment
  decides (the settled value of a \<open>fetch\<close>, the answer to \<open>confirm\<close>) is an argument.

  Each function awaits one request. It is modelled by the part that runs up to the request
  and the part that runs once the request has settled (\<open>_settled\<close>), and by their
  composition, a whole run. JavaScript runs each part without interruption. Time is a clock
  in milliseconds; \<open>elapse\<close> lets it pass and runs the timers that come due.
\<close>

subsection \<open>DOM nodes\<close>

text \<open>
  An element has a tag, a class attribute, further attributes, event listeners (event and
  handler name) and children; a text node has its data.
\<close>

datatype node =
  Element (tagName: string) (className: string) (attributes: "(string \<times> string) list")
    (listeners: "(string \<times> string) list") (childNodes: "node list")
| TextNode (data: string)

definition createElement :: "string \<Rightarrow> node" where
  "createElement t = Element t [] [] [] []"

definition createTextNode :: "string \<Rightarrow> node" where
  "createTextNode s = TextNode s"

text \<open>\<open>el.className = c\<close>\<close>

fun setClassName :: "string \<Rightarrow> node \<Rightarrow> node" where
  "setClassName c (Element t _ as ls ch) = Element t c as ls ch"
| "setClassName c (TextNode s) = TextNode s"

text \<open>\<open>el.textContent = s\<close>: the children are replaced by one text node, by none when \<open>s\<close> is empty.\<close>

fun setTextContent :: "string \<Rightarrow> node \<Rightarrow> node" where
  "setTextContent s (Element t c as ls _) = Element t c as ls (if s = [] then [] else [TextNode s])"
| "setTextContent s (TextNode _) = TextNode s"

text \<open>\<open>parent.appendChild(child)\<close>\<close>

fun appendChild :: "node \<Rightarrow> node \<Rightarrow> node" where
  "appendChild child (Element t c as ls ch) = Element t c as ls (ch @ [child])"
| "appendChild child (TextNode s) = TextNode s"

text \<open>\<open>el.setAttribute(k, v)\<close>: an attribute of that name is overwritten in place, a new one is added last.\<close>

fun put_attribute :: "string \<Rightarrow> string \<Rightarrow> (string \<times> string) list \<Rightarrow> (string \<times> string) list" where
  "put_attribute k v [] = [(k, v)]"
| "put_attribute k v ((k', v') # as) =
     (if k' = k then (k, v) # as else (k', v') # put_attribute k v as)"

fun setAttribute :: "string \<Rightarrow> string \<Rightarrow> node \<Rightarrow> node" where
  "setAttribute k v (Element t c as ls ch) = Element t c (put_attribute k v as) ls ch"
| "setAttribute k v (TextNode s) = TextNode s"

text \<open>\<open>el.getAttribute(k)\<close>: \<open>None\<close> is JavaScript's \<open>null\<close>.\<close>

fun getAttribute :: "string \<Rightarrow> node \<Rightarrow> string option" where
  "getAttribute k (Element t c as ls ch) = map_of as k"
| "getAttribute k (TextNode s) = None"

fun addEventListener :: "string \<Rightarrow> string \<Rightarrow> node \<Rightarrow> node" where
  "addEventListener ev h (Element t c as ls ch) = Element t c as (ls @ [(ev, h)]) ch"
| "addEventListener ev h (TextNode s) = TextNode s"

text \<open>Reading \<open>el.textContent\<close>: the text of all descendants, in document order.\<close>

fun textContent :: "node \<Rightarrow> string" where
  "textContent (TextNode s) = s"
| "textContent (Element t c as ls ch) = concat (map textContent ch)"

text \<open>
  \<open>el.getElementsByClassName(c)\<close>: the descendants carrying class \<open>c\<close>, in document order.
  Every class attribute the script writes into the rendered tree is a single token, so the
  class attribute is compared as a whole.
\<close>

fun getElementsByClassName :: "string \<Rightarrow> node \<Rightarrow> node list" where
  "getElementsByClassName c (TextNode s) = []"
| "getElementsByClassName c (Element t cl as ls ch) =
     concat (map (\<lambda>n. (if className n = c \<and> is_Element n then [n] else [])
                        @ getElementsByClassName c n) ch)"

subsection \<open>Numbers\<close>

text \<open>
  A JavaScript number is a binary64 floating-point value. The numbers this script computes
  with are the \<open>max_participants\<close> of the catalog, whole numbers by the endpoint's contract,
  and array lengths. So a number is modelled as the integer it holds, or as an infinity; an
  integer that binary64 cannot hold is rounded to the nearest one it can, ties to the even
  significand, as \<open>JSON.parse\<close> and the arithmetic do.
\<close>

datatype number = Finite int | PlusInfinity | MinusInfinity

text \<open>The number of bits of a natural number.\<close>

fun bitLength :: "nat \<Rightarrow> nat" where
  "bitLength n = (if n = 0 then 0 else Suc (bitLength (n div 2)))"

declare bitLength.simps [simp del]

text \<open>
  Rounding a magnitude to 53 significant bits: below \<open>2^53\<close> it is kept, above the bits beyond
  the 53rd are dropped, rounding to nearest and, half-way, to the even significand.
\<close>

definition roundMagnitude :: "nat \<Rightarrow> nat" where
  "roundMagnitude a =
     (if a < 2 ^ 53 then a
      else (let e = bitLength a - 53;
                q = a div 2 ^ e;
                r = a mod 2 ^ e;
                half = 2 ^ (e - 1);
                q = (if half < r \<or> (r = half \<and> odd q) then q + 1 else q)
            in q * 2 ^ e))"

text \<open>The number nearest to an integer; from \<open>2^1024\<close> on the rounded magnitude is infinite.\<close>

definition toNumber :: "int \<Rightarrow> number" where
  "toNumber i =
     (let a = roundMagnitude (nat \<bar>i\<bar>)
      in if 2 ^ 1024 \<le> a then (if i < 0 then MinusInfinity else PlusInfinity)
         else Finite (if i < 0 then - int a else int a))"

text \<open>
  \<open>x - n\<close> for a number \<open>x\<close> and a length \<open>n\<close>: the exact difference, rounded. An array's
  length is below \<open>2^32\<close>, so it is held exactly.
\<close>

fun subtract :: "number \<Rightarrow> nat \<Rightarrow> number" where
  "subtract (Finite a) n = toNumber (a - int n)"
| "subtract PlusInfinity n = PlusInfinity"
| "subtract MinusInfinity n = MinusInfinity"

subsection \<open>Numbers as text\<close>

text \<open>The decimal digits of a natural number.\<close>

fun digits :: "nat \<Rightarrow> string" where
  "digits n = (if n < 10 then [''0123456789'' ! n] else digits (n div 10) @ [''0123456789'' ! (n mod 10)])"

declare digits.simps [simp del]

text \<open>
  String concatenation with a number (\<open>" " + spotsLeft\<close>) writes the number as
  \<open>Number.prototype.toString\<close> does: with the fewest significant digits that still round to
  the number, followed by zeros. \<open>shortest x j\<close> looks for the integer with the most trailing
  zeros (at most \<open>j\<close>) that rounds to \<open>x\<close>; of two such integers it takes the nearer to \<open>x\<close>.
\<close>

fun shortest :: "nat \<Rightarrow> nat \<Rightarrow> nat" where
  "shortest x 0 = x"
| "shortest x (Suc j) =
     (let p = 10 ^ Suc j;
          lo = (x div p) * p;
          hi = lo + p;
          loFits = (0 < lo \<and> roundMagnitude lo = x);
          hiFits = (roundMagnitude hi = x)
      in if loFits \<and> hiFits then
           (if x - lo < hi - x then lo
            else if hi - x < x - lo then hi
            else if even (x div p) then lo else hi)
         else if loFits then lo
         else if hiFits then hi
         else shortest x j)"

definition stripZeros :: "string \<Rightarrow> string" where
  "stripZeros s = rev (dropWhile (\<lambda>c. c = CHR ''0'') (rev s))"

text \<open>
  Below \<open>10^21\<close> the digits are written out; from there on the exponent notation is used
  (\<open>1e+21\<close>, \<open>1.1805916207174113e+21\<close>).
\<close>

definition magnitudeToString :: "nat \<Rightarrow> string" where
  "magnitudeToString x =
     (let y = shortest x (length (digits x))
      in if y < 10 ^ 21 then digits y
         else (let s = stripZeros (digits y)
               in (if length s = 1 then s else hd s # CHR ''.'' # tl s)
                    @ ''e+'' @ digits (length (digits y) - 1)))"

fun numberToString :: "number \<Rightarrow> string" where
  "numberToString (Finite i) =
     (if i < 0 then CHR ''-'' # magnitudeToString (nat (- i)) else magnitudeToString (nat i))"
| "numberToString PlusInfinity = ''Infinity''"
| "numberToString MinusInfinity = ''-Infinity''"

text \<open>
  Reading a decimal numeral back, digit by digit: it says which integer a text shows. It is
  used to state properties only.
\<close>

definition digitValue :: "char \<Rightarrow> nat option" where
  "digitValue c = map_of (zip ''0123456789'' [0, 1, 2, 3, 4, 5, 6, 7, 8, 9]) c"

definition readDigits :: "string \<Rightarrow> nat option" where
  "readDigits s =
     (if s = [] then None
      else foldl (\<lambda>acc c. case acc of
                             None \<Rightarrow> None
                           | Some a \<Rightarrow> (case digitValue c of
                                          None \<Rightarrow> None
                                        | Some v \<Rightarrow> Some (10 * a + v)))
             (Some 0) s)"

fun readDecimal :: "string \<Rightarrow> int option" where
  "readDecimal [] = None"
| "readDecimal (c # cs) =
     (if c = CHR ''-'' then map_option (\<lambda>n. - int n) (readDigits cs)
      else map_option int (readDigits (c # cs)))"

subsection \<open>The catalog\<close>

text \<open>
  The body of \<open>GET /activities\<close>: an object from activity name to details. It is kept as the
  list \<open>Object.entries\<close> yields, in that order. \<open>max_participants\<close> holds the integer written
  in the body; the number the script reads is \<open>toNumber\<close> of it.
\<close>

record details =
  description :: string
  schedule :: string
  max_participants :: int
  participants :: "string list"

type_synonym activities = "(string \<times> details) list"

subsection \<open>One activity card\<close>

text \<open>Line 26.\<close>

definition spotsLeft :: "details \<Rightarrow> number" where
  "spotsLeft d = subtract (toNumber (max_participants d)) (length (participants d))"

text \<open>Lines 68 to 84: one list item per participant, holding the email and its delete button.\<close>

definition participantItem :: "string \<Rightarrow> string \<Rightarrow> node" where
  "participantItem name email =
     (let li = createElement ''li'';
          span = createElement ''span'';
          span = setTextContent email span;
          li = appendChild span li;
          button = createElement ''button'';
          button = setClassName ''delete-btn'' button;
          button = setTextContent ''Delete'' button;
          button = setAttribute ''data-activity'' name button;
          button = setAttribute ''data-email'' email button;
          button = addEventListener ''click'' ''handleDelete'' button;
          li = appendChild button li
      in li)"

text \<open>The \<open>forEach\<close> of line 68, appending to the \<open>ul\<close>.\<close>

fun appendParticipants :: "string \<Rightarrow> string list \<Rightarrow> node \<Rightarrow> node" where
  "appendParticipants name [] ul = ul"
| "appendParticipants name (email # emails) ul =
     appendParticipants name emails (appendChild (participantItem name email) ul)"

text \<open>Lines 55 to 92.\<close>

definition participantsSection :: "string \<Rightarrow> details \<Rightarrow> node" where
  "participantsSection name d =
     (let section = createElement ''div'';
          section = setClassName ''participants-section'' section;
          participantsLabel = createElement ''p'';
          participantsStrong = createElement ''strong'';
          participantsStrong = setTextContent ''Participants:'' participantsStrong;
          participantsLabel = appendChild participantsStrong participantsLabel;
          section = appendChild participantsLabel section
      in if length (participants d) > 0 then
           (let ul = createElement ''ul'';
                ul = setClassName ''participants-list'' ul;
                ul = appendParticipants name (participants d) ul
            in appendChild ul section)
         else
           (let noParticipants = createElement ''p'';
                noParticipants = setClassName ''no-participants'' noParticipants;
                noParticipants =
                  setTextContent ''No participants yet - be the first to sign up!'' noParticipants
            in appendChild noParticipants section))"

text \<open>Lines 47 to 51.\<close>

definition availabilityEl :: "details \<Rightarrow> node" where
  "availabilityEl d =
     (let availabilityEl = createElement ''p'';
          availabilityStrong = createElement ''strong'';
          availabilityStrong = setTextContent ''Availability:'' availabilityStrong;
          availabilityEl = appendChild availabilityStrong availabilityEl;
          availabilityEl =
            appendChild (createTextNode ('' '' @ numberToString (spotsLeft d) @ '' spots left''))
              availabilityEl
      in availabilityEl)"

text \<open>Lines 39 to 43.\<close>

definition scheduleEl :: "details \<Rightarrow> node" where
  "scheduleEl d =
     (let scheduleEl = createElement ''p'';
          scheduleStrong = createElement ''strong'';
          scheduleStrong = setTextContent ''Schedule:'' scheduleStrong;
          scheduleEl = appendChild scheduleStrong scheduleEl;
          scheduleEl = appendChild (createTextNode ('' '' @ schedule d)) scheduleEl
      in scheduleEl)"

text \<open>Lines 23 to 94: the card of one entry, before it is appended to the list.\<close>

definition activityCard :: "string \<Rightarrow> details \<Rightarrow> node" where
  "activityCard name d =
     (let activityCard = createElement ''div'';
          activityCard = setClassName ''activity-card'' activityCard;
          titleEl = createElement ''h4'';
          titleEl = setTextContent name titleEl;
          activityCard = appendChild titleEl activityCard;
          descriptionEl = createElement ''p'';
          descriptionEl = setTextContent (description d) descriptionEl;
          activityCard = appendChild descriptionEl activityCard;
          activityCard = appendChild (scheduleEl d) activityCard;
          activityCard = appendChild (availabilityEl d) activityCard;
          activityCard = appendChild (participantsSection name d) activityCard
      in activityCard)"

text \<open>Lines 98 to 100: the option of one entry.\<close>

definition activityOption :: "string \<Rightarrow> node" where
  "activityOption name =
     (let option = createElement ''option'';
          option = setAttribute ''value'' name option;
          option = setTextContent name option
      in option)"

subsection \<open>Settled promises\<close>

text \<open>
  \<open>await fetch(...)\<close> either throws (the network failed: a \<open>TypeError\<close>) or yields a response,
  whatever its status; \<open>await response.json()\<close> either throws (the body is not JSON: a
  \<open>SyntaxError\<close>) or yields the parsed body. A body that parses is taken to have the shape the
  endpoint documents: the catalog for \<open>GET /activities\<close>, an object with \<open>message\<close> and
  \<open>detail\<close> for the two others. Bodies of another shape are outside the model.
\<close>

datatype error = TypeError | SyntaxError

datatype 'a response = Response (ok: bool) (json: "error + 'a")

type_synonym 'a fetched = "error + 'a response"

text \<open>The body of a signup or unregister response: \<open>message\<close> on success, \<open>detail\<close> (optional) on error.\<close>

record result =
  message :: string
  detail :: "string option"

subsection \<open>The page\<close>

text \<open>The message area: its text (written through \<open>textContent\<close>) and the tokens of its class attribute.\<close>

record message_area =
  innerText :: string
  classList :: "string list"

text \<open>The values of the form's two controls, \<open>#email\<close> and \<open>#activity\<close>.\<close>

record form =
  email :: string
  activity :: string

datatype request = Request (httpMethod: string) (url: string)

text \<open>
  \<open>activitiesList\<close> and \<open>activitySelect\<close> hold the children of the two elements (the options,
  for the select). \<open>formDefault\<close> holds the default values the markup declares for the form's
  controls, which \<open>reset()\<close> restores; the markup is not part of the script, so they are a
  parameter. \<open>requests\<close> lists the remote calls issued so far, \<open>timers\<close> the due times
  (milliseconds on \<open>clock\<close>) of the pending \<open>setTimeout\<close> callbacks, \<open>console\<close> the calls of
  \<open>console.error\<close> (label and error).
\<close>

record page =
  activitiesList :: "node list"
  activitySelect :: "node list"
  signupForm :: form
  formDefault :: form
  messageDiv :: message_area
  requests :: "request list"
  timers :: "nat list"
  clock :: nat
  console :: "(string \<times> error) list"

text \<open>\<open>messageDiv.textContent = s\<close>\<close>

definition message_textContent :: "string \<Rightarrow> page \<Rightarrow> page" where
  "message_textContent s pg = pg\<lparr>messageDiv := (messageDiv pg)\<lparr>innerText := s\<rparr>\<rparr>"

text \<open>\<open>messageDiv.className = c\<close>, for a single token \<open>c\<close>: it replaces every class there was.\<close>

definition message_className :: "string \<Rightarrow> page \<Rightarrow> page" where
  "message_className c pg = pg\<lparr>messageDiv := (messageDiv pg)\<lparr>classList := [c]\<rparr>\<rparr>"

text \<open>\<open>messageDiv.classList.remove(c)\<close>\<close>

definition message_classList_remove :: "string \<Rightarrow> page \<Rightarrow> page" where
  "message_classList_remove c pg =
     pg\<lparr>messageDiv := (messageDiv pg)\<lparr>classList := filter (\<lambda>x. x \<noteq> c) (classList (messageDiv pg))\<rparr>\<rparr>"

text \<open>\<open>messageDiv.classList.add(c)\<close>\<close>

definition message_classList_add :: "string \<Rightarrow> page \<Rightarrow> page" where
  "message_classList_add c pg =
     pg\<lparr>messageDiv := (messageDiv pg)\<lparr>classList :=
       (if c \<in> set (classList (messageDiv pg)) then classList (messageDiv pg)
        else classList (messageDiv pg) @ [c])\<rparr>\<rparr>"

text \<open>The message area is shown unless it carries the class \<open>hidden\<close>.\<close>

definition visible :: "message_area \<Rightarrow> bool" where
  "visible m = (''hidden'' \<notin> set (classList m))"

text \<open>\<open>fetch(url, {method})\<close>, up to the point where it is awaited: the call is issued.\<close>

definition fetch :: "string \<Rightarrow> string \<Rightarrow> page \<Rightarrow> page" where
  "fetch m u pg = pg\<lparr>requests := requests pg @ [Request m u]\<rparr>"

text \<open>\<open>setTimeout(() => messageDiv.classList.add("hidden"), ms)\<close>: every callback the script arms is this one.\<close>

definition setTimeout :: "nat \<Rightarrow> page \<Rightarrow> page" where
  "setTimeout ms pg = pg\<lparr>timers := timers pg @ [clock pg + ms]\<rparr>"

definition console_error :: "string \<Rightarrow> error \<Rightarrow> page \<Rightarrow> page" where
  "console_error label e pg = pg\<lparr>console := console pg @ [(label, e)]\<rparr>"

text \<open>\<open>signupForm.reset()\<close>\<close>

definition reset :: "page \<Rightarrow> page" where
  "reset pg = pg\<lparr>signupForm := formDefault pg\<rparr>"

text \<open>
  Time passing: \<open>ms\<close> milliseconds later every timer that has come due has run its callback
  and is no longer pending.
\<close>

definition elapse :: "nat \<Rightarrow> page \<Rightarrow> page" where
  "elapse ms pg =
     (let now = clock pg + ms;
          due = filter (\<lambda>t. t \<le> now) (timers pg);
          pg = fold (\<lambda>t. message_classList_add ''hidden'') due pg
      in pg\<lparr>clock := now, timers := filter (\<lambda>t. now < t) (timers pg)\<rparr>)"

subsection \<open>\<open>fetchActivities\<close>\<close>

text \<open>Lines 17 to 19: \<open>while (activitySelect.options.length > 1) activitySelect.remove(1)\<close>.\<close>

fun clearOptions :: "node list \<Rightarrow> node list" where
  "clearOptions (placeholder # second # options) = clearOptions (placeholder # options)"
| "clearOptions options = options"

text \<open>Lines 22 to 102: the \<open>forEach\<close> over \<open>Object.entries(activities)\<close>.\<close>

fun renderEntries :: "activities \<Rightarrow> page \<Rightarrow> page" where
  "renderEntries [] pg = pg"
| "renderEntries ((name, d) # entries) pg =
     renderEntries entries
       (pg\<lparr>activitiesList := activitiesList pg @ [activityCard name d],
            activitySelect := activitySelect pg @ [activityOption name]\<rparr>)"

text \<open>Lines 104 and 105, the \<open>catch\<close> block.\<close>

definition failureNotice :: node where
  "failureNotice =
     Element ''p'' [] [] [] [TextNode ''Failed to load activities. Please try again later.'']"

definition fetchActivities_catch :: "error \<Rightarrow> page \<Rightarrow> page" where
  "fetchActivities_catch e pg =
     console_error ''Error fetching activities:'' e (pg\<lparr>activitiesList := [failureNotice]\<rparr>)"

text \<open>
  Line 10. A call \<open>fetchActivities()\<close> runs as far as the first \<open>await\<close>: the request is
  issued. The two handlers call it without awaiting it, so this is all of it that runs
  inside them.
\<close>

definition fetchActivities_call :: "page \<Rightarrow> page" where
  "fetchActivities_call pg = fetch ''GET'' ''/activities'' pg"

text \<open>
  Lines 11 to 106: \<open>fetchActivities\<close> from the point where the request has settled with
  \<open>fetched\<close>. Nothing after line 11 awaits, so this part runs without interruption. The
  response's status is not read.
\<close>

definition fetchActivities_settled :: "activities fetched \<Rightarrow> page \<Rightarrow> page" where
  "fetchActivities_settled fetched pg =
     (case fetched of
        Inl e \<Rightarrow> fetchActivities_catch e pg
      | Inr response \<Rightarrow>
          (case json response of
             Inl e \<Rightarrow> fetchActivities_catch e pg
           | Inr activities \<Rightarrow>
               (let pg = pg\<lparr>activitiesList := []\<rparr>;
                    pg = pg\<lparr>activitySelect := clearOptions (activitySelect pg)\<rparr>
                in renderEntries activities pg)))"

text \<open>One whole run of \<open>fetchActivities\<close>, its request settling with \<open>fetched\<close>.\<close>

definition fetchActivities :: "activities fetched \<Rightarrow> page \<Rightarrow> page" where
  "fetchActivities fetched pg = fetchActivities_settled fetched (fetchActivities_call pg)"

text \<open>A sequence of loads, each settling before the next is started.\<close>

definition fetchActivities_seq :: "activities fetched list \<Rightarrow> page \<Rightarrow> page" where
  "fetchActivities_seq fs pg = fold fetchActivities fs pg"

subsection \<open>Building the request URLs\<close>

text \<open>
  \<open>encodeURIComponent\<close> on a string held as its UTF-8 bytes: letters, digits and
  \<open>- _ . ! ~ * ' ( )\<close> stay, every other byte becomes \<open>%\<close> and two upper-case hex digits.
\<close>

definition unreserved :: "char \<Rightarrow> bool" where
  "unreserved c =
     (c \<in> set (''ABCDEFGHIJKLMNOPQRSTUVWXYZabcdefghijklmnopqrstuvwxyz0123456789-_.!~*()''
               @ [CHR 0x27]))"

definition hexDigit :: "nat \<Rightarrow> char" where
  "hexDigit n = ''0123456789ABCDEF'' ! n"

definition encodeByte :: "char \<Rightarrow> string" where
  "encodeByte c =
     (if unreserved c then [c]
      else [CHR ''%'', hexDigit (of_char c div 16), hexDigit (of_char c mod 16)])"

definition encodeURIComponent :: "string \<Rightarrow> string" where
  "encodeURIComponent s = concat (map encodeByte s)"

text \<open>A value that may be \<open>null\<close>, inside a template literal.\<close>

fun toString :: "string option \<Rightarrow> string" where
  "toString None = ''null''"
| "toString (Some s) = s"

text \<open>\<open>x || fallback\<close> on a string that may be absent: absent and empty are both falsy.\<close>

fun orElse :: "string option \<Rightarrow> string \<Rightarrow> string" where
  "orElse None fallback = fallback"
| "orElse (Some s) fallback = (if s = [] then fallback else s)"

subsection \<open>\<open>handleDelete\<close>\<close>

text \<open>Line 115, the text of the prompt.\<close>

definition confirmText :: "string \<Rightarrow> string \<Rightarrow> string" where
  "confirmText emailValue activityName =
     ''Are you sure you want to unregister '' @ emailValue @ '' from '' @ activityName @ ''?''"

text \<open>Line 121.\<close>

definition unregisterUrl :: "string \<Rightarrow> string \<Rightarrow> string" where
  "unregisterUrl activityName emailValue =
     ''/activities/'' @ encodeURIComponent activityName @ ''/unregister?email=''
       @ encodeURIComponent emailValue"

text \<open>Lines 145 to 148, the \<open>catch\<close> block.\<close>

definition handleDelete_catch :: "error \<Rightarrow> page \<Rightarrow> page" where
  "handleDelete_catch e pg =
     (let pg = message_textContent ''Failed to unregister. Please try again.'' pg;
          pg = message_className ''error'' pg;
          pg = message_classList_remove ''hidden'' pg;
          pg = console_error ''Error unregistering:'' e pg
      in pg)"

text \<open>Lines 127 to 149: the handler from the point where the \<open>DELETE\<close> request has settled with \<open>fetched\<close>.\<close>

definition handleDelete_settled :: "result fetched \<Rightarrow> page \<Rightarrow> page" where
  "handleDelete_settled fetched pg =
     (case fetched of
        Inl e \<Rightarrow> handleDelete_catch e pg
      | Inr response \<Rightarrow>
          (case json response of
             Inl e \<Rightarrow> handleDelete_catch e pg
           | Inr result \<Rightarrow>
               if ok response then
                 (let pg = message_textContent (message result) pg;
                      pg = message_className ''success'' pg;
                      pg = message_classList_remove ''hidden'' pg;
                      pg = fetchActivities_call pg;
                      pg = setTimeout 3000 pg
                  in pg)
               else
                 (let pg = message_textContent (orElse (detail result) ''Failed to unregister'') pg;
                      pg = message_className ''error'' pg;
                      pg = message_classList_remove ''hidden'' pg
                  in pg)))"

text \<open>
  Lines 110 to 150, the click handler of a delete button: \<open>target\<close> is the button clicked,
  \<open>confirm\<close> the user's answer to the prompt shown, \<open>fetched\<close> what the request settles with
  when one is issued.
\<close>

definition handleDelete :: "(string \<Rightarrow> bool) \<Rightarrow> node \<Rightarrow> result fetched \<Rightarrow> page \<Rightarrow> page" where
  "handleDelete confirm target fetched pg =
     (let activityName = toString (getAttribute ''data-activity'' target);
          emailValue = toString (getAttribute ''data-email'' target)
      in if \<not> confirm (confirmText emailValue activityName) then pg
         else handleDelete_settled fetched
                (fetch ''DELETE'' (unregisterUrl activityName emailValue) pg))"

subsection \<open>The form's \<open>submit\<close> handler\<close>

text \<open>Line 161.\<close>

definition signupUrl :: "string \<Rightarrow> string \<Rightarrow> string" where
  "signupUrl activityName emailValue =
     ''/activities/'' @ encodeURIComponent activityName @ ''/signup?email=''
       @ encodeURIComponent emailValue"

text \<open>Lines 186 to 189, the \<open>catch\<close> block.\<close>

definition submit_catch :: "error \<Rightarrow> page \<Rightarrow> page" where
  "submit_catch e pg =
     (let pg = message_textContent ''Failed to sign up. Please try again.'' pg;
          pg = message_className ''error'' pg;
          pg = message_classList_remove ''hidden'' pg;
          pg = console_error ''Error signing up:'' e pg
      in pg)"

text \<open>Lines 167 to 190: the handler from the point where the \<open>POST\<close> request has settled with \<open>fetched\<close>.\<close>

definition submit_settled :: "result fetched \<Rightarrow> page \<Rightarrow> page" where
  "submit_settled fetched pg =
     (case fetched of
        Inl e \<Rightarrow> submit_catch e pg
      | Inr response \<Rightarrow>
          (case json response of
             Inl e \<Rightarrow> submit_catch e pg
           | Inr result \<Rightarrow>
               (let pg = (if ok response then
                            (let pg = message_textContent (message result) pg;
                                 pg = message_className ''success'' pg;
                                 pg = reset pg;
                                 pg = fetchActivities_call pg
                             in pg)
                          else
                            (let pg = message_textContent
                                        (orElse (detail result) ''An error occurred'') pg;
                                 pg = message_className ''error'' pg
                             in pg));
                    pg = message_classList_remove ''hidden'' pg;
                    pg = setTimeout 5000 pg
                in pg)))"

text \<open>Lines 153 to 191: the values of the two controls are read, the request is issued.\<close>

definition submit :: "result fetched \<Rightarrow> page \<Rightarrow> page" where
  "submit fetched pg =
     (let emailValue = email (signupForm pg);
          activityValue = activity (signupForm pg)
      in submit_settled fetched (fetch ''POST'' (signupUrl activityValue emailValue) pg))"

text \<open>Line 194: the page starts by loading the catalog.\<close>

definition initialize :: "page \<Rightarrow> page" where
  "initialize pg = fetchActivities_call pg"

subsection \<open>Concrete inputs\<close>

text \<open>
  A page as it stands before the first load settles: a loading line, the select's
  placeholder option, an empty form, a hidden message area.
\<close>

definition startPage :: page where
  "startPage =
     \<lparr>activitiesList = [Element ''p'' [] [] [] [TextNode ''Loading activities...'']],
      activitySelect = [Element ''option'' [] [(''value'', [])] [] [TextNode ''-- Select an activity --'']],
      signupForm = \<lparr>email = [], activity = []\<rparr>,
      formDefault = \<lparr>email = [], activity = []\<rparr>,
      messageDiv = \<lparr>innerText = [], classList = [''hidden'']\<rparr>,
      requests = [],
      timers = [],
      clock = 0,
      console = []\<rparr>"

text \<open>The same page with the form filled in.\<close>

definition filledPage :: page where
  "filledPage = startPage\<lparr>signupForm := \<lparr>email = ''b@x.com'', activity = ''Chess Club''\<rparr>\<rparr>"

definition chessClub :: details where
  "chessClub =
     \<lparr>description = ''Learn strategies and compete in chess tournaments'',
      schedule = ''Fridays, 3:30 PM - 5:00 PM'',
      max_participants = 10,
      participants = [''a@x.com'']\<rparr>"

text \<open>An activity with more participants than places, and one with none.\<close>

definition overbooked :: details where
  "overbooked =
     \<lparr>description = ''Weekly match'', schedule = ''Mondays'', max_participants = 1,
      participants = [''a@x.com'', ''b@x.com'', ''c@x.com'']\<rparr>"

definition artClub :: details where
  "artClub =
     \<lparr>description = ''Painting and drawing'', schedule = ''Thursdays'', max_participants = 15,
      participants = []\<rparr>"

text \<open>Activities whose numbers are beyond \<open>2^53\<close>, and a large one within.\<close>

definition hugeClub :: details where
  "hugeClub =
     \<lparr>description = ''Open to all'', schedule = ''Daily'', max_participants = 9007199254740994,
      participants = [''a@x.com'']\<rparr>"

definition vastClub :: details where
  "vastClub =
     \<lparr>description = ''Open to all'', schedule = ''Daily'',
      max_participants = 1000000000000000000000, participants = [''a@x.com'']\<rparr>"

definition stadium :: details where
  "stadium =
     \<lparr>description = ''Home games'', schedule = ''Saturdays'', max_participants = 12000,
      participants = [''a@x.com'', ''b@x.com'', ''c@x.com'']\<rparr>"

definition signedUp :: result where
  "signedUp = \<lparr>message = ''Signed up b@x.com for Chess Club'', detail = None\<rparr>"

definition unregistered :: result where
  "unregistered = \<lparr>message = ''Unregistered a@x.com from Chess Club'', detail = None\<rparr>"

definition notRegistered :: result where
  "notRegistered = \<lparr>message = [], detail = Some ''Not registered''\<rparr>"

text \<open>The filled page one second after a signup on it has succeeded: its timer is pending.\<close>

definition afterSignup :: page where
  "afterSignup = elapse 1000 (submit (Inr (Response True (Inr signedUp))) filledPage)"

text \<open>The delete button of \<open>a@x.com\<close> on the Chess Club card.\<close>

definition chessButton :: node where
  "chessButton =
     Element ''button'' ''delete-btn'' [(''data-activity'', ''Chess Club''), (''data-email'', ''a@x.com'')]
       [(''click'', ''handleDelete'')] [TextNode ''Delete'']"

section \<open>Properties\<close>

subsection \<open>The rendered tree written out\<close>

lemma appendParticipants_eq:
  "appendParticipants name es (Element t c as ls ch) =
     Element t c as ls (ch @ map (participantItem name) es)"
  by (induction es arbitrary: ch) simp_all

lemma participantItem_eq:
  "participantItem name e =
     Element ''li'' [] [] []
       [Element ''span'' [] [] [] (if e = [] then [] else [TextNode e]),
        Element ''button'' ''delete-btn'' [(''data-activity'', name), (''data-email'', e)]
          [(''click'', ''handleDelete'')] [TextNode ''Delete'']]"
  by (simp add: participantItem_def createElement_def)

lemma participantsSection_eq:
  "participantsSection name d =
     Element ''div'' ''participants-section'' [] []
       [Element ''p'' [] [] [] [Element ''strong'' [] [] [] [TextNode ''Participants:'']],
        if participants d \<noteq> []
        then Element ''ul'' ''participants-list'' [] [] (map (participantItem name) (participants d))
        else Element ''p'' ''no-participants'' [] []
               [TextNode ''No participants yet - be the first to sign up!'']]"
  by (simp add: participantsSection_def createElement_def Let_def appendParticipants_eq)

lemma availabilityEl_eq:
  "availabilityEl d =
     Element ''p'' [] [] []
       [Element ''strong'' [] [] [] [TextNode ''Availability:''],
        TextNode ('' '' @ numberToString (spotsLeft d) @ '' spots left'')]"
  by (simp add: availabilityEl_def createElement_def createTextNode_def)

lemma scheduleEl_eq:
  "scheduleEl d =
     Element ''p'' [] [] []
       [Element ''strong'' [] [] [] [TextNode ''Schedule:''], TextNode ('' '' @ schedule d)]"
  by (simp add: scheduleEl_def createElement_def createTextNode_def)

lemma activityCard_eq:
  "activityCard name d =
     Element ''div'' ''activity-card'' [] []
       [Element ''h4'' [] [] [] (if name = [] then [] else [TextNode name]),
        Element ''p'' [] [] [] (if description d = [] then [] else [TextNode (description d)]),
        scheduleEl d, availabilityEl d, participantsSection name d]"
  by (simp add: activityCard_def createElement_def)

lemma activityOption_eq:
  "activityOption name =
     Element ''option'' [] [(''value'', name)] [] (if name = [] then [] else [TextNode name])"
  by (simp add: activityOption_def createElement_def)

lemma delete_btn_items:
  "concat (map (\<lambda>n. (if className n = ''delete-btn'' \<and> is_Element n then [n] else [])
                        @ getElementsByClassName ''delete-btn'' n) (map (participantItem name) es))
   = map (\<lambda>e. Element ''button'' ''delete-btn'' [(''data-activity'', name), (''data-email'', e)]
                 [(''click'', ''handleDelete'')] [TextNode ''Delete'']) es"
  by (induction es) (simp_all add: participantItem_eq)

lemma delete_btn_card:
  "getElementsByClassName ''delete-btn'' (activityCard name d) =
     map (\<lambda>e. Element ''button'' ''delete-btn'' [(''data-activity'', name), (''data-email'', e)]
                 [(''click'', ''handleDelete'')] [TextNode ''Delete'']) (participants d)"
  by (simp add: activityCard_eq participantsSection_eq scheduleEl_eq availabilityEl_eq
      delete_btn_items del: map_map)

lemma no_participants_items:
  "concat (map (\<lambda>n. (if className n = ''no-participants'' \<and> is_Element n then [n] else [])
                        @ getElementsByClassName ''no-participants'' n)
             (map (participantItem name) es)) = []"
  by (induction es) (simp_all add: participantItem_eq)

lemma no_participants_card:
  "getElementsByClassName ''no-participants'' (activityCard name d) =
     (if participants d = []
      then [Element ''p'' ''no-participants'' [] []
              [TextNode ''No participants yet - be the first to sign up!'']]
      else [])"
  by (simp add: activityCard_eq participantsSection_eq scheduleEl_eq availabilityEl_eq
      no_participants_items del: map_map)

subsection \<open>Participants and their delete controls\<close>

lemma chessButton_rendered:
  "getElementsByClassName ''delete-btn'' (activityCard ''Chess Club'' chessClub) = [chessButton]"
  by (simp add: delete_btn_card chessClub_def chessButton_def)

text \<open>
  Claim C5. The delete controls of a card are the elements of class \<open>delete-btn\<close>. There is
  one per participant, in the order of the participants list; each is a button that calls
  \<open>handleDelete\<close> when clicked and carries the activity's name as \<open>data-activity\<close> and its
  participant's email as \<open>data-email\<close>. So a card without participants has no delete
  control; it is then, and only then, that the card holds the placeholder line
  \<open>No participants yet - be the first to sign up!\<close>.
\<close>

theorem card_delete_controls:
  "map (\<lambda>b. (tagName b, listeners b, getAttribute ''data-activity'' b, getAttribute ''data-email'' b))
       (getElementsByClassName ''delete-btn'' (activityCard name d))
     = map (\<lambda>e. (''button'', [(''click'', ''handleDelete'')], Some name, Some e)) (participants d)
   \<and> length (getElementsByClassName ''delete-btn'' (activityCard name d)) = length (participants d)
   \<and> map textContent (getElementsByClassName ''no-participants'' (activityCard name d))
     = (if participants d = [] then [''No participants yet - be the first to sign up!''] else [])"
  by (simp add: delete_btn_card no_participants_card comp_def)

theorem card_delete_controls_witness:
  "map (\<lambda>b. (tagName b, listeners b, getAttribute ''data-activity'' b, getAttribute ''data-email'' b))
       (getElementsByClassName ''delete-btn'' (activityCard ''Match'' overbooked))
     = [(''button'', [(''click'', ''handleDelete'')], Some ''Match'', Some ''a@x.com''),
        (''button'', [(''click'', ''handleDelete'')], Some ''Match'', Some ''b@x.com''),
        (''button'', [(''click'', ''handleDelete'')], Some ''Match'', Some ''c@x.com'')]
   \<and> map textContent (getElementsByClassName ''no-participants'' (activityCard ''Match'' overbooked)) = []
   \<and> length (getElementsByClassName ''delete-btn'' (activityCard ''Art Club'' artClub)) = 0
   \<and> map textContent (getElementsByClassName ''no-participants'' (activityCard ''Art Club'' artClub))
     = [''No participants yet - be the first to sign up!'']"
  using card_delete_controls [of "''Match''" overbooked]
    card_delete_controls [of "''Art Club''" artClub]
  by (simp add: overbooked_def artClub_def)

subsection \<open>Availability\<close>

text \<open>Numbers below \<open>2^53\<close> are held exactly and written with all their digits.\<close>

lemma bitLength_bounds: "0 < n \<Longrightarrow> 2 ^ (bitLength n - 1) \<le> n \<and> n < 2 ^ bitLength n"
proof (induction n rule: bitLength.induct)
  case (1 n)
  from "1.prems" have unfold: "bitLength n = Suc (bitLength (n div 2))"
    by (subst bitLength.simps) simp
  show ?case
  proof (cases "n div 2 = 0")
    case True
    with "1.prems" have "n = 1" by presburger
    then show ?thesis by (simp add: bitLength.simps)
  next
    case False
    then have pos: "0 < n div 2" by simp
    from "1.prems" have "n \<noteq> 0" by simp
    from "1.IH" [OF this pos]
    have lo: "2 ^ (bitLength (n div 2) - 1) \<le> n div 2" and hi: "n div 2 < 2 ^ bitLength (n div 2)"
      by simp_all
    from pos have b: "0 < bitLength (n div 2)"
      by (subst bitLength.simps) simp
    then obtain k where k: "bitLength (n div 2) = Suc k" by (cases "bitLength (n div 2)") simp_all
    from lo k have "2 * 2 ^ k \<le> 2 * (n div 2)" by simp
    then have l: "2 ^ Suc k \<le> n" by simp
    from hi k have "n div 2 + 1 \<le> 2 ^ Suc k" by simp
    then have "2 * (n div 2) + 2 \<le> 2 * 2 ^ Suc k" by simp
    then have h: "n < 2 * 2 ^ Suc k" by presburger
    from l h show ?thesis by (simp add: unfold k)
  qed
qed

lemma roundMagnitude_small: "a < 2 ^ 53 \<Longrightarrow> roundMagnitude a = a"
  by (simp add: roundMagnitude_def)

lemma roundMagnitude_large:
  assumes "\<not> a < 2 ^ 53"
  shows "2 ^ 53 \<le> roundMagnitude a"
proof -
  from assms have pos: "0 < a" by (cases "a = 0") simp_all
  define b where "b = bitLength a"
  from bitLength_bounds [OF pos] have lo: "2 ^ (b - 1) \<le> a" and hi: "a < 2 ^ b"
    by (simp_all add: b_def)
  from assms hi have "(2::nat) ^ 53 < 2 ^ b" by simp
  from power_less_imp_less_exp [OF _ this] have b53: "53 < b" by simp
  define e where "e = b - 53"
  from b53 have e: "0 < e" and be: "b - 1 = 52 + e" by (simp_all add: e_def)
  from lo be have "(2::nat) ^ 52 * 2 ^ e \<le> a" by (simp add: power_add)
  then have "(2 ^ 52 * 2 ^ e) div 2 ^ e \<le> a div 2 ^ e" by (rule div_le_mono)
  then have q: "(2::nat) ^ 52 \<le> a div 2 ^ e" by simp
  define q' where "q' = (if 2 ^ (e - 1) < a mod 2 ^ e \<or> (a mod 2 ^ e = 2 ^ (e - 1) \<and> odd (a div 2 ^ e))
                        then a div 2 ^ e + 1 else a div 2 ^ e)"
  from q have q': "(2::nat) ^ 52 \<le> q'" by (simp add: q'_def)
  from e have "(2::nat) ^ 1 \<le> 2 ^ e" by (intro power_increasing) simp_all
  then have two: "(2::nat) \<le> 2 ^ e" by simp
  from q' two have "(2::nat) ^ 52 * 2 \<le> q' * 2 ^ e" by (rule mult_le_mono)
  then have "(2::nat) ^ 53 \<le> q' * 2 ^ e" by simp
  moreover from assms have "roundMagnitude a = q' * 2 ^ e"
    by (simp add: roundMagnitude_def Let_def q'_def e_def b_def)
  ultimately show ?thesis by simp
qed

lemma roundMagnitude_eq_small:
  assumes "x < 2 ^ 53" and "roundMagnitude y = x"
  shows "y = x"
proof (cases "y < 2 ^ 53")
  case True
  with assms show ?thesis by (simp add: roundMagnitude_small)
next
  case False
  from roundMagnitude_large [OF this] assms show ?thesis by simp
qed

lemma shortest_small: "x < 2 ^ 53 \<Longrightarrow> shortest x j = x"
proof (induction j)
  case 0
  show ?case by simp
next
  case (Suc j)
  have hi: "roundMagnitude ((x div 10 ^ Suc j) * 10 ^ Suc j + 10 ^ Suc j) \<noteq> x"
  proof
    assume "roundMagnitude ((x div 10 ^ Suc j) * 10 ^ Suc j + 10 ^ Suc j) = x"
    from roundMagnitude_eq_small [OF Suc.prems this]
    have "(x div 10 ^ Suc j) * 10 ^ Suc j + 10 ^ Suc j = x" .
    moreover have "x mod 10 ^ Suc j < 10 ^ Suc j" by simp
    moreover have "(x div 10 ^ Suc j) * 10 ^ Suc j + x mod 10 ^ Suc j = x"
      by (rule div_mult_mod_eq)
    ultimately show False by linarith
  qed
  have lo: "roundMagnitude ((x div 10 ^ Suc j) * 10 ^ Suc j) = x
            \<Longrightarrow> (x div 10 ^ Suc j) * 10 ^ Suc j = x"
    by (rule roundMagnitude_eq_small [OF Suc.prems])
  show ?case
    unfolding shortest.simps Let_def
    using hi lo Suc.IH [OF Suc.prems] by auto
qed

lemma magnitudeToString_small: "x < 2 ^ 53 \<Longrightarrow> magnitudeToString x = digits x"
  by (simp add: magnitudeToString_def shortest_small)

lemma toNumber_small: "\<bar>i\<bar> < 2 ^ 53 \<Longrightarrow> toNumber i = Finite i"
proof -
  assume i: "\<bar>i\<bar> < 2 ^ 53"
  then have a: "nat \<bar>i\<bar> < 2 ^ 53" by simp
  have "(2::nat) ^ 53 \<le> 2 ^ 1024" by (intro power_increasing) simp_all
  with a have "\<not> (2::nat) ^ 1024 \<le> nat \<bar>i\<bar>" by linarith
  with a show ?thesis by (simp add: toNumber_def Let_def roundMagnitude_small)
qed

text \<open>The digits written are read back as the number.\<close>

lemma digit_char_in: "a < 10 \<Longrightarrow> ''0123456789'' ! a \<in> set ''0123456789''"
  by (rule nth_mem) simp

lemma digits_small: "n < 10 \<Longrightarrow> digits n = [''0123456789'' ! n]"
  by (simp add: digits.simps)

lemma digits_large:
  "\<not> n < 10 \<Longrightarrow> digits n = digits (n div 10) @ [''0123456789'' ! (n mod 10)]"
  by (subst digits.simps) simp

lemma digits_not_Nil: "digits n \<noteq> []"
  by (cases "n < 10") (simp_all add: digits_small digits_large)

lemma digits_chars: "set (digits n) \<subseteq> set ''0123456789''"
proof (induction n rule: digits.induct)
  case (1 n)
  show ?case
  proof (cases "n < 10")
    case True
    with digit_char_in [of n] show ?thesis by (simp add: digits_small)
  next
    case False
    have "n mod 10 < 10" by simp
    from digit_char_in [OF this] 1 [OF False] False show ?thesis
      by (simp add: digits_large)
  qed
qed

lemma digits_no_minus: "hd (digits n) \<noteq> CHR ''-''"
proof -
  from digits_not_Nil [of n] have "hd (digits n) \<in> set (digits n)" by simp
  with digits_chars [of n] have "hd (digits n) \<in> set ''0123456789''" by blast
  then show ?thesis by auto
qed

lemma digitValue_digit: "k < 10 \<Longrightarrow> digitValue (''0123456789'' ! k) = Some k"
proof -
  assume "k < 10"
  then have "k = 0 \<or> k = 1 \<or> k = 2 \<or> k = 3 \<or> k = 4 \<or> k = 5 \<or> k = 6 \<or> k = 7 \<or> k = 8 \<or> k = 9"
    by arith
  then show ?thesis by (elim disjE) (simp_all add: digitValue_def)
qed

lemma readDigits_snoc:
  "readDigits s = Some a \<Longrightarrow> digitValue c = Some v \<Longrightarrow> readDigits (s @ [c]) = Some (10 * a + v)"
  by (simp add: readDigits_def split: if_splits)

lemma readDigits_digits: "readDigits (digits n) = Some n"
proof (induction n rule: digits.induct)
  case (1 n)
  show ?case
  proof (cases "n < 10")
    case True
    then show ?thesis by (simp add: digits_small readDigits_def digitValue_digit)
  next
    case False
    have "n mod 10 < 10" by simp
    from readDigits_snoc [OF 1 [OF False] digitValue_digit [OF this]] False
    show ?thesis by (simp add: digits_large)
  qed
qed

lemma readDecimal_digits: "readDecimal (digits n) = Some (int n)"
proof (cases "digits n")
  case Nil
  with digits_not_Nil show ?thesis by simp
next
  case (Cons c cs)
  with digits_no_minus [of n] have "c \<noteq> CHR ''-''" by simp
  with Cons readDigits_digits [of n] show ?thesis by simp
qed

lemma readDecimal_minus_digits: "readDecimal (CHR ''-'' # digits n) = Some (- int n)"
  by (simp add: readDigits_digits)

lemma numberToString_small:
  "\<bar>i\<bar> < 2 ^ 53 \<Longrightarrow>
   numberToString (Finite i) = (if i < 0 then CHR ''-'' # digits (nat (- i)) else digits (nat i))"
  by (simp add: magnitudeToString_small)

text \<open>Beyond \<open>2^53\<close> the difference is rounded, and from \<open>10^21\<close> on written with an exponent.\<close>

lemma spotsLeft_hugeClub: "spotsLeft hugeClub = Finite 9007199254740992"
  by (simp add: spotsLeft_def hugeClub_def toNumber_def roundMagnitude_def Let_def bitLength.simps)

lemma magnitudeToString_2_53: "magnitudeToString 9007199254740992 = ''9007199254740992''"
  by (simp add: magnitudeToString_def roundMagnitude_def Let_def bitLength.simps digits.simps)

lemma magnitudeToString_2_64: "magnitudeToString 18446744073709551616 = ''18446744073709552000''"
  by (simp add: magnitudeToString_def roundMagnitude_def Let_def bitLength.simps digits.simps)

lemma spotsLeft_vastClub: "spotsLeft vastClub = Finite 1000000000000000000000"
  by (simp add: spotsLeft_def vastClub_def toNumber_def roundMagnitude_def Let_def bitLength.simps)

lemma magnitudeToString_10_21: "magnitudeToString 1000000000000000000000 = ''1e+21''"
  by (simp add: magnitudeToString_def roundMagnitude_def Let_def bitLength.simps digits.simps
      stripZeros_def)

text \<open>
  Claim C6 fails as stated: with \<open>max_participants\<close> 9007199254740994 and one participant the
  card shows 9007199254740992, not 9007199254740993; with \<open>10^21\<close> and one participant it
  shows \<open>1e+21\<close>.
\<close>

theorem availability_beyond_safe_integers:
  "max_participants hugeClub - int (length (participants hugeClub)) = 9007199254740993
   \<and> childNodes (activityCard ''Chess Club'' hugeClub) ! 3 =
       Element ''p'' [] [] []
         [Element ''strong'' [] [] [] [TextNode ''Availability:''],
          TextNode '' 9007199254740992 spots left'']
   \<and> readDecimal ''9007199254740992'' = Some 9007199254740992
   \<and> max_participants vastClub - int (length (participants vastClub)) = 999999999999999999999
   \<and> childNodes (activityCard ''Chess Club'' vastClub) ! 3 =
       Element ''p'' [] [] []
         [Element ''strong'' [] [] [] [TextNode ''Availability:''],
          TextNode '' 1e+21 spots left'']"
proof -
  have "max_participants hugeClub - int (length (participants hugeClub)) = 9007199254740993"
    by (simp add: hugeClub_def)
  moreover have "childNodes (activityCard ''Chess Club'' hugeClub) ! 3 =
       Element ''p'' [] [] []
         [Element ''strong'' [] [] [] [TextNode ''Availability:''],
          TextNode '' 9007199254740992 spots left'']"
    by (simp add: activityCard_eq availabilityEl_eq spotsLeft_hugeClub magnitudeToString_2_53)
  moreover have "readDecimal ''9007199254740992'' = Some 9007199254740992"
    by (simp add: readDigits_def digitValue_def)
  moreover have "max_participants vastClub - int (length (participants vastClub))
      = 999999999999999999999"
    by (simp add: vastClub_def)
  moreover have "childNodes (activityCard ''Chess Club'' vastClub) ! 3 =
       Element ''p'' [] [] []
         [Element ''strong'' [] [] [] [TextNode ''Availability:''],
          TextNode '' 1e+21 spots left'']"
    by (simp add: activityCard_eq availabilityEl_eq spotsLeft_vastClub magnitudeToString_10_21)
  ultimately show ?thesis by (intro conjI)
qed

text \<open>
  Claim C6, amended. When \<open>max_participants\<close> and its difference with the number of
  participants are both of magnitude below \<open>2^53\<close>, the fourth child of a card is the
  availability line: the label \<open>Availability:\<close> followed by a text node holding a space, the
  number left and \<open> spots left\<close>. The number left is \<open>max_participants\<close> minus the number of
  participants, exactly and unclamped; its text is the decimal writing of that difference,
  with a minus sign when there are more participants than places, and reads back as that
  difference.
\<close>

theorem card_availability:
  assumes "\<bar>max_participants d\<bar> < 2 ^ 53"
    and "\<bar>max_participants d - int (length (participants d))\<bar> < 2 ^ 53"
  shows "childNodes (activityCard name d) ! 3 =
       Element ''p'' [] [] []
         [Element ''strong'' [] [] [] [TextNode ''Availability:''],
          TextNode ('' '' @ numberToString (spotsLeft d) @ '' spots left'')]
   \<and> spotsLeft d = Finite (max_participants d - int (length (participants d)))
   \<and> readDecimal (numberToString (spotsLeft d))
       = Some (max_participants d - int (length (participants d)))
   \<and> numberToString (spotsLeft d) =
       (if max_participants d < int (length (participants d))
        then CHR ''-'' # digits (nat (int (length (participants d)) - max_participants d))
        else digits (nat (max_participants d - int (length (participants d)))))"
proof -
  have node: "childNodes (activityCard name d) ! 3 =
       Element ''p'' [] [] []
         [Element ''strong'' [] [] [] [TextNode ''Availability:''],
          TextNode ('' '' @ numberToString (spotsLeft d) @ '' spots left'')]"
    by (simp add: activityCard_eq availabilityEl_eq)
  have left: "spotsLeft d = Finite (max_participants d - int (length (participants d)))"
    by (simp add: spotsLeft_def toNumber_small [OF assms(1)] toNumber_small [OF assms(2)])
  have shown: "numberToString (spotsLeft d) =
       (if max_participants d < int (length (participants d))
        then CHR ''-'' # digits (nat (int (length (participants d)) - max_participants d))
        else digits (nat (max_participants d - int (length (participants d)))))"
  proof (cases "max_participants d < int (length (participants d))")
    case True
    with assms(2) have "nat (int (length (participants d)) - max_participants d) < 2 ^ 53"
      by simp
    from magnitudeToString_small [OF this] True show ?thesis
      by (simp add: left)
  next
    case False
    with assms(2) have "nat (max_participants d - int (length (participants d))) < 2 ^ 53"
      by simp
    from magnitudeToString_small [OF this] False show ?thesis
      by (simp add: left)
  qed
  have reads: "readDecimal (numberToString (spotsLeft d))
       = Some (max_participants d - int (length (participants d)))"
    by (simp add: shown readDecimal_digits readDecimal_minus_digits del: readDecimal.simps)
  from node left reads shown show ?thesis by (intro conjI)
qed

theorem card_availability_witness:
  "textContent (childNodes (activityCard ''Match'' overbooked) ! 3) = ''Availability: -2 spots left''
   \<and> spotsLeft overbooked = Finite (- 2)
   \<and> textContent (childNodes (activityCard ''Chess Club'' chessClub) ! 3) = ''Availability: 9 spots left''
   \<and> textContent (childNodes (activityCard ''Stadium'' stadium) ! 3) = ''Availability: 11997 spots left''
   \<and> readDecimal (numberToString (spotsLeft stadium)) = Some 11997"
proof -
  have d2: "digits 2 = ''2''" and d9: "digits 9 = ''9''" and d11997: "digits 11997 = ''11997''"
    by (simp_all add: digits.simps)
  from card_availability [of overbooked "''Match''"]
  have a: "childNodes (activityCard ''Match'' overbooked) ! 3 =
       Element ''p'' [] [] []
         [Element ''strong'' [] [] [] [TextNode ''Availability:''], TextNode '' -2 spots left'']
     \<and> spotsLeft overbooked = Finite (- 2)"
    by (simp add: overbooked_def magnitudeToString_small d2)
  from card_availability [of chessClub "''Chess Club''"]
  have b: "childNodes (activityCard ''Chess Club'' chessClub) ! 3 =
       Element ''p'' [] [] []
         [Element ''strong'' [] [] [] [TextNode ''Availability:''], TextNode '' 9 spots left'']"
    by (simp add: chessClub_def magnitudeToString_small d9)
  from card_availability [of stadium "''Stadium''"]
  have c: "childNodes (activityCard ''Stadium'' stadium) ! 3 =
       Element ''p'' [] [] []
         [Element ''strong'' [] [] [] [TextNode ''Availability:''], TextNode '' 11997 spots left'']
     \<and> readDecimal (numberToString (spotsLeft stadium)) = Some 11997"
    by (simp add: stadium_def magnitudeToString_small d11997 readDigits_def digitValue_def)
  from a b c show ?thesis by simp
qed

subsection \<open>Loading the catalog\<close>

lemma renderEntries_eq:
  "renderEntries es pg =
     pg\<lparr>activitiesList := activitiesList pg @ map (\<lambda>(name, d). activityCard name d) es,
        activitySelect := activitySelect pg @ map (\<lambda>(name, d). activityOption name) es\<rparr>"
  by (induction es arbitrary: pg) auto

lemma clearOptions_take: "clearOptions os = take 1 os"
  by (induction os rule: clearOptions.induct) simp_all

lemma fetchActivities_parsed:
  "fetchActivities (Inr (Response status (Inr acts))) pg =
     pg\<lparr>activitiesList := map (\<lambda>(name, d). activityCard name d) acts,
        activitySelect := take 1 (activitySelect pg) @ map (\<lambda>(name, d). activityOption name) acts,
        requests := requests pg @ [Request ''GET'' ''/activities'']\<rparr>"
  by (simp add: fetchActivities_def fetchActivities_settled_def fetchActivities_call_def fetch_def
      renderEntries_eq clearOptions_take)

lemma fetchActivities_rejected:
  "fetchActivities (Inl e) pg =
     pg\<lparr>activitiesList := [failureNotice],
        requests := requests pg @ [Request ''GET'' ''/activities''],
        console := console pg @ [(''Error fetching activities:'', e)]\<rparr>"
  by (simp add: fetchActivities_def fetchActivities_settled_def fetchActivities_call_def fetch_def
      fetchActivities_catch_def console_error_def)

lemma fetchActivities_unparsed:
  "fetchActivities (Inr (Response status (Inl e))) pg =
     pg\<lparr>activitiesList := [failureNotice],
        requests := requests pg @ [Request ''GET'' ''/activities''],
        console := console pg @ [(''Error fetching activities:'', e)]\<rparr>"
  by (simp add: fetchActivities_def fetchActivities_settled_def fetchActivities_call_def fetch_def
      fetchActivities_catch_def console_error_def)

lemma fetchActivities_seq_snoc:
  "fetchActivities_seq (fs @ [f]) pg = fetchActivities f (fetchActivities_seq fs pg)"
  by (simp add: fetchActivities_seq_def)

lemma option_value_label:
  "map (\<lambda>opt. (getAttribute ''value'' opt, textContent opt))
     (map (\<lambda>(name, d). activityOption name) (acts :: activities))
   = map (\<lambda>(name, d). (Some name, name)) acts"
  by (simp add: comp_def case_prod_beta activityOption_eq)

lemma card_titles:
  "map (\<lambda>card. textContent (hd (childNodes card)))
     (map (\<lambda>(name, d). activityCard name d) (acts :: activities)) = map fst acts"
  by (simp add: comp_def case_prod_beta activityCard_eq)

text \<open>
  Claim C1. When the load settles with a catalog of N entries, the list area holds exactly
  the N cards of the entries, in the order of the entries (the title of the i-th card is the
  i-th name). The select keeps at most its first option and gets N options appended, in the
  same order, the value and the label of each being the activity's name.
\<close>

theorem fetchActivities_renders_catalog:
  "activitiesList (fetchActivities (Inr (Response True (Inr acts))) pg)
     = map (\<lambda>(name, d). activityCard name d) acts
   \<and> length (activitiesList (fetchActivities (Inr (Response True (Inr acts))) pg)) = length acts
   \<and> map (\<lambda>card. textContent (hd (childNodes card)))
        (activitiesList (fetchActivities (Inr (Response True (Inr acts))) pg)) = map fst acts
   \<and> activitySelect (fetchActivities (Inr (Response True (Inr acts))) pg)
     = take 1 (activitySelect pg) @ map (\<lambda>(name, d). activityOption name) acts
   \<and> length (activitySelect (fetchActivities (Inr (Response True (Inr acts))) pg))
     = length (take 1 (activitySelect pg)) + length acts
   \<and> map (\<lambda>opt. (getAttribute ''value'' opt, textContent opt))
        (drop (length (take 1 (activitySelect pg)))
           (activitySelect (fetchActivities (Inr (Response True (Inr acts))) pg)))
     = map (\<lambda>(name, d). (Some name, name)) acts"
  by (simp add: fetchActivities_parsed option_value_label card_titles del: map_map)

theorem fetchActivities_renders_catalog_witness:
  "map (\<lambda>card. textContent (hd (childNodes card)))
     (activitiesList (fetchActivities
        (Inr (Response True (Inr [(''Chess Club'', chessClub), (''Art Club'', artClub)]))) startPage))
     = [''Chess Club'', ''Art Club'']
   \<and> map (\<lambda>opt. (getAttribute ''value'' opt, textContent opt))
       (activitySelect (fetchActivities
          (Inr (Response True (Inr [(''Chess Club'', chessClub), (''Art Club'', artClub)]))) startPage))
     = [(Some [], ''-- Select an activity --''), (Some ''Chess Club'', ''Chess Club''),
        (Some ''Art Club'', ''Art Club'')]"
  using fetchActivities_renders_catalog
    [of "[(''Chess Club'', chessClub), (''Art Club'', artClub)]" startPage]
  by (simp add: startPage_def activityCard_eq activityOption_eq)

text \<open>
  Claim C2 fails as stated: a load that fails after one that succeeded replaces the cards of
  the earlier snapshot by the failure notice.
\<close>

theorem failed_load_replaces_snapshot:
  "activitiesList (fetchActivities_seq [Inr (Response True (Inr [(''Chess Club'', chessClub)]))] startPage)
     = [activityCard ''Chess Club'' chessClub]
   \<and> activitiesList (fetchActivities_seq
        [Inr (Response True (Inr [(''Chess Club'', chessClub)])), Inl TypeError] startPage)
     = [failureNotice]
   \<and> failureNotice \<noteq> activityCard ''Chess Club'' chessClub"
  by (simp add: fetchActivities_seq_def fetchActivities_parsed fetchActivities_rejected
      failureNotice_def activityCard_eq)

text \<open>
  Claim C2, amended. After any sequence of loads the list area shows what the last of them
  settled with: the failure notice when the request was rejected or its body did not parse,
  whatever was shown before, and the cards of the catalog, complete and in order, when a 2xx
  response carried one. A load that fails leaves the options of the select as the loads
  before it left them; a load that succeeds replaces all but the first.
\<close>

theorem load_sequence_shows_last_attempt:
  "activitiesList (fetchActivities_seq (fs @ [Inl e]) pg) = [failureNotice]
   \<and> activitySelect (fetchActivities_seq (fs @ [Inl e]) pg) = activitySelect (fetchActivities_seq fs pg)
   \<and> activitiesList (fetchActivities_seq (fs @ [Inr (Response status (Inl e))]) pg) = [failureNotice]
   \<and> activitySelect (fetchActivities_seq (fs @ [Inr (Response status (Inl e))]) pg)
     = activitySelect (fetchActivities_seq fs pg)
   \<and> activitiesList (fetchActivities_seq (fs @ [Inr (Response True (Inr acts))]) pg)
     = map (\<lambda>(name, d). activityCard name d) acts
   \<and> activitySelect (fetchActivities_seq (fs @ [Inr (Response True (Inr acts))]) pg)
     = take 1 (activitySelect (fetchActivities_seq fs pg))
       @ map (\<lambda>(name, d). activityOption name) acts"
  by (simp add: fetchActivities_seq_snoc fetchActivities_parsed fetchActivities_rejected
      fetchActivities_unparsed)

theorem load_sequence_shows_last_attempt_witness:
  "activitiesList (fetchActivities_seq
      ([Inr (Response True (Inr [(''Chess Club'', chessClub)]))] @ [Inl TypeError]) startPage)
     = [failureNotice]
   \<and> map (\<lambda>opt. (getAttribute ''value'' opt, textContent opt))
       (activitySelect (fetchActivities_seq
          ([Inr (Response True (Inr [(''Chess Club'', chessClub)]))] @ [Inl TypeError]) startPage))
     = [(Some [], ''-- Select an activity --''), (Some ''Chess Club'', ''Chess Club'')]
   \<and> activitiesList (fetchActivities_seq
        ([Inl TypeError] @ [Inr (Response True (Inr [(''Art Club'', artClub)]))]) startPage)
     = [activityCard ''Art Club'' artClub]"
proof -
  have first:
    "activitySelect (fetchActivities_seq [Inr (Response True (Inr [(''Chess Club'', chessClub)]))] startPage)
       = take 1 (activitySelect startPage) @ [activityOption ''Chess Club'']"
    by (simp add: fetchActivities_seq_def fetchActivities_parsed)
  from load_sequence_shows_last_attempt
      [of "[Inr (Response True (Inr [(''Chess Club'', chessClub)]))]" TypeError startPage True "[]"]
    load_sequence_shows_last_attempt
      [of "[Inl TypeError]" TypeError startPage True "[(''Art Club'', artClub)]"]
    first
  show ?thesis by (simp add: startPage_def activityOption_eq)
qed

text \<open>
  Claim C3 holds for a request that is rejected and for a body that does not parse, as
  \<open>fetchActivities_failure_notice\<close> below shows. It does not hold for a non-2xx response:
  \<open>fetchActivities\<close> never reads the status, so such a response is rendered like a 2xx one.
  With the body \<open>{}\<close> the list area is left empty, with a catalog its cards are shown; in
  both cases there is no failure notice and nothing is logged.
\<close>

theorem fetchActivities_ignores_status:
  "fetchActivities (Inr (Response False (Inr acts))) pg
     = fetchActivities (Inr (Response True (Inr acts))) pg
   \<and> activitiesList (fetchActivities (Inr (Response False (Inr []))) startPage) = []
   \<and> console (fetchActivities (Inr (Response False (Inr []))) startPage) = []
   \<and> activitiesList (fetchActivities (Inr (Response False (Inr [(''Chess Club'', chessClub)]))) startPage)
     = [activityCard ''Chess Club'' chessClub]
   \<and> console (fetchActivities (Inr (Response False (Inr [(''Chess Club'', chessClub)]))) startPage) = []"
  by (simp add: fetchActivities_parsed startPage_def)

lemma fetchActivities_failure_notice:
  "activitiesList (fetchActivities (Inl e) pg) = [failureNotice]
   \<and> console (fetchActivities (Inl e) pg) = console pg @ [(''Error fetching activities:'', e)]
   \<and> activitiesList (fetchActivities (Inr (Response status (Inl e))) pg) = [failureNotice]
   \<and> console (fetchActivities (Inr (Response status (Inl e))) pg)
     = console pg @ [(''Error fetching activities:'', e)]"
  by (simp add: fetchActivities_rejected fetchActivities_unparsed)

subsection \<open>The message area and its timers\<close>

lemma fold_hide:
  "fold (\<lambda>t. message_classList_add ''hidden'') due pg =
     (if due = [] then pg else message_classList_add ''hidden'' pg)"
proof (induction due arbitrary: pg)
  case Nil
  show ?case by simp
next
  case (Cons t due)
  have twice: "message_classList_add ''hidden'' (message_classList_add ''hidden'' pg)
      = message_classList_add ''hidden'' pg"
    by (simp add: message_classList_add_def)
  show ?case by (simp add: Cons.IH twice)
qed

lemma elapse_eq:
  "elapse ms pg =
     (if filter (\<lambda>t. t \<le> clock pg + ms) (timers pg) = [] then pg
      else message_classList_add ''hidden'' pg)
       \<lparr>clock := clock pg + ms, timers := filter (\<lambda>t. clock pg + ms < t) (timers pg)\<rparr>"
  by (simp add: elapse_def Let_def fold_hide message_classList_add_def)

lemma elapse_visible:
  "visible (messageDiv (elapse ms pg)) =
     (visible (messageDiv pg) \<and> filter (\<lambda>t. t \<le> clock pg + ms) (timers pg) = [])"
  by (simp add: elapse_eq visible_def message_classList_add_def)

lemma visible_error: "visible \<lparr>innerText = s, classList = [''error'']\<rparr>"
  by (simp add: visible_def)

lemma visible_success: "visible \<lparr>innerText = s, classList = [''success'']\<rparr>"
  by (simp add: visible_def)

lemma elapse_innerText: "innerText (messageDiv (elapse ms pg)) = innerText (messageDiv pg)"
  by (simp add: elapse_eq message_classList_add_def)

subsection \<open>Unregistering\<close>

lemma handleDelete_catch_eq:
  "handleDelete_catch e pg =
     pg\<lparr>messageDiv := \<lparr>innerText = ''Failed to unregister. Please try again.'', classList = [''error'']\<rparr>,
        console := console pg @ [(''Error unregistering:'', e)]\<rparr>"
  by (simp add: handleDelete_catch_def message_textContent_def message_className_def
      message_classList_remove_def console_error_def)

lemma handleDelete_settled_rejected:
  "handleDelete_settled (Inl e) pg = handleDelete_catch e pg"
  by (simp add: handleDelete_settled_def)

lemma handleDelete_settled_unparsed:
  "handleDelete_settled (Inr (Response status (Inl e))) pg = handleDelete_catch e pg"
  by (simp add: handleDelete_settled_def)

lemma handleDelete_settled_ok:
  "handleDelete_settled (Inr (Response True (Inr result))) pg =
     pg\<lparr>messageDiv := \<lparr>innerText = message result, classList = [''success'']\<rparr>,
        requests := requests pg @ [Request ''GET'' ''/activities''],
        timers := timers pg @ [clock pg + 3000]\<rparr>"
  by (simp add: handleDelete_settled_def message_textContent_def message_className_def
      message_classList_remove_def fetchActivities_call_def fetch_def setTimeout_def)

lemma handleDelete_settled_not_ok:
  "handleDelete_settled (Inr (Response False (Inr result))) pg =
     pg\<lparr>messageDiv := \<lparr>innerText = orElse (detail result) ''Failed to unregister'',
                         classList = [''error'']\<rparr>\<rparr>"
  by (simp add: handleDelete_settled_def message_textContent_def message_className_def
      message_classList_remove_def)

lemma handleDelete_confirmed:
  "confirm (confirmText (toString (getAttribute ''data-email'' target))
              (toString (getAttribute ''data-activity'' target))) \<Longrightarrow>
   handleDelete confirm target fetched pg =
     handleDelete_settled fetched
       (fetch ''DELETE'' (unregisterUrl (toString (getAttribute ''data-activity'' target))
                           (toString (getAttribute ''data-email'' target))) pg)"
  by (simp add: handleDelete_def)

text \<open>
  Claim C7. When the user declines the prompt, \<open>handleDelete\<close> returns the page as it was:
  no request is added to those issued, and the message area (text, class, visibility) and
  the pending timers are the same.
\<close>

theorem handleDelete_declined:
  assumes "\<not> confirm (confirmText (toString (getAttribute ''data-email'' target))
                         (toString (getAttribute ''data-activity'' target)))"
  shows "handleDelete confirm target fetched pg = pg
    \<and> requests (handleDelete confirm target fetched pg) = requests pg
    \<and> messageDiv (handleDelete confirm target fetched pg) = messageDiv pg
    \<and> timers (handleDelete confirm target fetched pg) = timers pg"
  using assms by (simp add: handleDelete_def)

theorem handleDelete_declined_witness:
  "confirmText (toString (getAttribute ''data-email'' chessButton))
     (toString (getAttribute ''data-activity'' chessButton))
     = ''Are you sure you want to unregister a@x.com from Chess Club?''
   \<and> handleDelete (\<lambda>prompt. prompt \<noteq> ''Are you sure you want to unregister a@x.com from Chess Club?'')
       chessButton (Inr (Response True (Inr unregistered))) startPage = startPage
   \<and> requests (handleDelete
        (\<lambda>prompt. prompt \<noteq> ''Are you sure you want to unregister a@x.com from Chess Club?'')
        chessButton (Inr (Response True (Inr unregistered))) startPage) = []
   \<and> messageDiv (handleDelete
        (\<lambda>prompt. prompt \<noteq> ''Are you sure you want to unregister a@x.com from Chess Club?'')
        chessButton (Inr (Response True (Inr unregistered))) startPage)
      = \<lparr>innerText = [], classList = [''hidden'']\<rparr>"
proof -
  have prompt: "confirmText (toString (getAttribute ''data-email'' chessButton))
      (toString (getAttribute ''data-activity'' chessButton))
      = ''Are you sure you want to unregister a@x.com from Chess Club?''"
    by (simp add: confirmText_def chessButton_def)
  from handleDelete_declined
    [of "\<lambda>prompt. prompt \<noteq> ''Are you sure you want to unregister a@x.com from Chess Club?''"
       chessButton "Inr (Response True (Inr unregistered))" startPage] prompt
  show ?thesis by (simp add: startPage_def)
qed

subsection \<open>Signing up\<close>

lemma submit_catch_eq:
  "submit_catch e pg =
     pg\<lparr>messageDiv := \<lparr>innerText = ''Failed to sign up. Please try again.'', classList = [''error'']\<rparr>,
        console := console pg @ [(''Error signing up:'', e)]\<rparr>"
  by (simp add: submit_catch_def message_textContent_def message_className_def
      message_classList_remove_def console_error_def)

lemma submit_settled_rejected: "submit_settled (Inl e) pg = submit_catch e pg"
  by (simp add: submit_settled_def)

lemma submit_settled_unparsed:
  "submit_settled (Inr (Response status (Inl e))) pg = submit_catch e pg"
  by (simp add: submit_settled_def)

lemma submit_settled_ok:
  "submit_settled (Inr (Response True (Inr result))) pg =
     pg\<lparr>messageDiv := \<lparr>innerText = message result, classList = [''success'']\<rparr>,
        signupForm := formDefault pg,
        requests := requests pg @ [Request ''GET'' ''/activities''],
        timers := timers pg @ [clock pg + 5000]\<rparr>"
  by (simp add: submit_settled_def message_textContent_def message_className_def
      message_classList_remove_def reset_def fetchActivities_call_def fetch_def setTimeout_def)

lemma submit_settled_not_ok:
  "submit_settled (Inr (Response False (Inr result))) pg =
     pg\<lparr>messageDiv := \<lparr>innerText = orElse (detail result) ''An error occurred'',
                         classList = [''error'']\<rparr>,
        timers := timers pg @ [clock pg + 5000]\<rparr>"
  by (simp add: submit_settled_def message_textContent_def message_className_def
      message_classList_remove_def setTimeout_def)

lemma submit_eq:
  "submit fetched pg =
     submit_settled fetched
       (fetch ''POST'' (signupUrl (activity (signupForm pg)) (email (signupForm pg))) pg)"
  by (simp add: submit_def)

lemma signupUrl_example:
  "signupUrl ''Chess Club'' ''b@x.com'' = ''/activities/Chess%20Club/signup?email=b%40x.com''"
  by (simp add: signupUrl_def encodeURIComponent_def encodeByte_def unreserved_def hexDigit_def)

lemma unregisterUrl_example:
  "unregisterUrl ''Chess Club'' ''a@x.com'' = ''/activities/Chess%20Club/unregister?email=a%40x.com''"
  by (simp add: unregisterUrl_def encodeURIComponent_def encodeByte_def unreserved_def hexDigit_def)

text \<open>
  Claim C4 fails as stated: a 2xx response whose body is not JSON makes \<open>response.json()\<close>
  throw before the status is looked at, so the form keeps its values and no load is issued.
\<close>

theorem submit_2xx_without_json_keeps_form:
  "signupForm (submit (Inr (Response True (Inl SyntaxError))) filledPage)
     = \<lparr>email = ''b@x.com'', activity = ''Chess Club''\<rparr>
   \<and> formDefault (submit (Inr (Response True (Inl SyntaxError))) filledPage)
     = \<lparr>email = [], activity = []\<rparr>
   \<and> requests (submit (Inr (Response True (Inl SyntaxError))) filledPage)
     = [Request ''POST'' ''/activities/Chess%20Club/signup?email=b%40x.com'']"
  by (simp add: submit_eq submit_settled_unparsed submit_catch_eq fetch_def filledPage_def
      startPage_def signupUrl_example)

text \<open>
  Claim C4, amended. A signup that receives a 2xx response whose body parses as a JSON object
  resets the form to its defaults and issues the catalog load exactly once, after the signup
  request. A signup that fails, by a non-2xx response, a rejected request or a body that is
  not JSON, leaves the form's values as they were and issues nothing but the signup request.
\<close>

theorem submit_clears_and_reloads:
  "signupForm (submit (Inr (Response True (Inr result))) pg) = formDefault pg
   \<and> requests (submit (Inr (Response True (Inr result))) pg)
     = requests pg @ [Request ''POST'' (signupUrl (activity (signupForm pg)) (email (signupForm pg))),
                      Request ''GET'' ''/activities'']
   \<and> signupForm (submit (Inr (Response False (Inr result))) pg) = signupForm pg
   \<and> requests (submit (Inr (Response False (Inr result))) pg)
     = requests pg @ [Request ''POST'' (signupUrl (activity (signupForm pg)) (email (signupForm pg)))]
   \<and> signupForm (submit (Inl e) pg) = signupForm pg
   \<and> requests (submit (Inl e) pg)
     = requests pg @ [Request ''POST'' (signupUrl (activity (signupForm pg)) (email (signupForm pg)))]
   \<and> signupForm (submit (Inr (Response status (Inl e))) pg) = signupForm pg
   \<and> requests (submit (Inr (Response status (Inl e))) pg)
     = requests pg @ [Request ''POST'' (signupUrl (activity (signupForm pg)) (email (signupForm pg)))]"
  by (simp add: submit_eq submit_settled_ok submit_settled_not_ok submit_settled_rejected
      submit_settled_unparsed submit_catch_eq fetch_def)

theorem submit_clears_and_reloads_witness:
  "signupForm (submit (Inr (Response True (Inr signedUp))) filledPage) = \<lparr>email = [], activity = []\<rparr>
   \<and> requests (submit (Inr (Response True (Inr signedUp))) filledPage)
     = [Request ''POST'' ''/activities/Chess%20Club/signup?email=b%40x.com'',
        Request ''GET'' ''/activities'']
   \<and> signupForm (submit (Inr (Response False (Inr notRegistered))) filledPage)
     = \<lparr>email = ''b@x.com'', activity = ''Chess Club''\<rparr>
   \<and> requests (submit (Inr (Response False (Inr notRegistered))) filledPage)
     = [Request ''POST'' ''/activities/Chess%20Club/signup?email=b%40x.com'']"
  using submit_clears_and_reloads [of signedUp filledPage TypeError True]
    submit_clears_and_reloads [of notRegistered filledPage TypeError True]
  by (simp add: filledPage_def startPage_def signupUrl_example)

text \<open>
  Claim C8 fails as stated: when the request is rejected the \<open>catch\<close> block shows the message
  and arms no timer.
\<close>

theorem submit_network_failure_arms_no_timer:
  "timers (submit (Inl TypeError) filledPage) = []
   \<and> messageDiv (submit (Inl TypeError) filledPage)
     = \<lparr>innerText = ''Failed to sign up. Please try again.'', classList = [''error'']\<rparr>
   \<and> visible (messageDiv (elapse 3600000 (submit (Inl TypeError) filledPage)))"
  by (simp add: submit_eq submit_settled_rejected submit_catch_eq fetch_def filledPage_def
      startPage_def elapse_visible visible_error)

text \<open>
  Claim C8, amended. A signup answered by a response whose body parses as a JSON object,
  success or server-reported failure, makes the message visible and arms one timer, due
  5000 ms later.
  A signup whose request is rejected, or whose response body is not JSON, makes the message
  visible and arms no timer.
\<close>

theorem submit_message_and_timer:
  "visible (messageDiv (submit (Inr (Response True (Inr result))) pg))
   \<and> timers (submit (Inr (Response True (Inr result))) pg) = timers pg @ [clock pg + 5000]
   \<and> visible (messageDiv (submit (Inr (Response False (Inr result))) pg))
   \<and> timers (submit (Inr (Response False (Inr result))) pg) = timers pg @ [clock pg + 5000]
   \<and> visible (messageDiv (submit (Inl e) pg))
   \<and> timers (submit (Inl e) pg) = timers pg
   \<and> visible (messageDiv (submit (Inr (Response status (Inl e))) pg))
   \<and> timers (submit (Inr (Response status (Inl e))) pg) = timers pg"
  by (simp add: submit_eq submit_settled_ok submit_settled_not_ok submit_settled_rejected
      submit_settled_unparsed submit_catch_eq fetch_def visible_error visible_success)

theorem submit_message_and_timer_witness:
  "visible (messageDiv (submit (Inr (Response True (Inr signedUp))) filledPage))
   \<and> timers (submit (Inr (Response True (Inr signedUp))) filledPage) = [5000]
   \<and> visible (messageDiv (submit (Inr (Response False (Inr notRegistered))) filledPage))
   \<and> timers (submit (Inr (Response False (Inr notRegistered))) filledPage) = [5000]
   \<and> timers (submit (Inr (Response False (Inl SyntaxError))) filledPage) = []"
  using submit_message_and_timer [of signedUp filledPage SyntaxError False]
    submit_message_and_timer [of notRegistered filledPage SyntaxError False]
  by (simp add: filledPage_def startPage_def)

subsection \<open>A failed unregister and the timers of other actions\<close>

lemma afterSignup_eq:
  "afterSignup =
     filledPage
       \<lparr>signupForm := \<lparr>email = [], activity = []\<rparr>,
        messageDiv := \<lparr>innerText = ''Signed up b@x.com for Chess Club'', classList = [''success'']\<rparr>,
        requests := [Request ''POST'' ''/activities/Chess%20Club/signup?email=b%40x.com'',
                     Request ''GET'' ''/activities''],
        timers := [5000],
        clock := 1000\<rparr>"
  by (simp add: afterSignup_def submit_eq submit_settled_ok elapse_eq fetch_def filledPage_def
      startPage_def signedUp_def signupUrl_example)

text \<open>
  Claim C10 fails as stated: a signup succeeds at 0 and arms its timer, an unregister fails
  at 1000 and shows \<open>Not registered\<close>; at 5000 the signup's timer hides that message, with
  no action in between.
\<close>

theorem failed_unregister_hidden_by_earlier_timer:
  "timers afterSignup = [5000]
   \<and> clock afterSignup = 1000
   \<and> messageDiv (handleDelete (\<lambda>prompt. True) chessButton
        (Inr (Response False (Inr notRegistered))) afterSignup)
      = \<lparr>innerText = ''Not registered'', classList = [''error'']\<rparr>
   \<and> timers (handleDelete (\<lambda>prompt. True) chessButton
        (Inr (Response False (Inr notRegistered))) afterSignup) = [5000]
   \<and> visible (messageDiv (elapse 3999 (handleDelete (\<lambda>prompt. True) chessButton
        (Inr (Response False (Inr notRegistered))) afterSignup)))
   \<and> messageDiv (elapse 4000 (handleDelete (\<lambda>prompt. True) chessButton
        (Inr (Response False (Inr notRegistered))) afterSignup))
      = \<lparr>innerText = ''Not registered'', classList = [''error'', ''hidden'']\<rparr>
   \<and> \<not> visible (messageDiv (elapse 4000 (handleDelete (\<lambda>prompt. True) chessButton
        (Inr (Response False (Inr notRegistered))) afterSignup)))"
  by (simp add: afterSignup_eq handleDelete_confirmed handleDelete_settled_not_ok elapse_eq
      fetch_def filledPage_def startPage_def notRegistered_def message_classList_add_def
      visible_def)

text \<open>
  Claim C10, amended. A confirmed unregister that fails, by a rejected request, a body that
  does not parse or a non-2xx response, shows its message with class \<open>error\<close> and arms no
  timer: the pending timers are those there were. Only a 2xx response with a parsed body arms
  one, due 3000 ms later. As time passes, the failure's message stays visible exactly as long
  as no timer that was pending before, armed by another action, comes due; with none pending
  it stays until a later action replaces or hides it.
\<close>

theorem handleDelete_failure_arms_no_timer:
  assumes "confirm (confirmText (toString (getAttribute ''data-email'' target))
                      (toString (getAttribute ''data-activity'' target)))"
  shows "timers (handleDelete confirm target (Inl e) pg) = timers pg
    \<and> timers (handleDelete confirm target (Inr (Response status (Inl e))) pg) = timers pg
    \<and> timers (handleDelete confirm target (Inr (Response False (Inr result))) pg) = timers pg
    \<and> timers (handleDelete confirm target (Inr (Response True (Inr result))) pg)
        = timers pg @ [clock pg + 3000]
    \<and> messageDiv (handleDelete confirm target (Inl e) pg)
        = \<lparr>innerText = ''Failed to unregister. Please try again.'', classList = [''error'']\<rparr>
    \<and> messageDiv (handleDelete confirm target (Inr (Response status (Inl e))) pg)
        = \<lparr>innerText = ''Failed to unregister. Please try again.'', classList = [''error'']\<rparr>
    \<and> messageDiv (handleDelete confirm target (Inr (Response False (Inr result))) pg)
        = \<lparr>innerText = orElse (detail result) ''Failed to unregister'', classList = [''error'']\<rparr>
    \<and> visible (messageDiv (handleDelete confirm target (Inl e) pg))
    \<and> visible (messageDiv (handleDelete confirm target (Inr (Response status (Inl e))) pg))
    \<and> visible (messageDiv (handleDelete confirm target (Inr (Response False (Inr result))) pg))
    \<and> visible (messageDiv (elapse ms (handleDelete confirm target (Inl e) pg)))
        = (filter (\<lambda>t. t \<le> clock pg + ms) (timers pg) = [])
    \<and> visible (messageDiv (elapse ms (handleDelete confirm target (Inr (Response status (Inl e))) pg)))
        = (filter (\<lambda>t. t \<le> clock pg + ms) (timers pg) = [])
    \<and> visible (messageDiv (elapse ms (handleDelete confirm target (Inr (Response False (Inr result))) pg)))
        = (filter (\<lambda>t. t \<le> clock pg + ms) (timers pg) = [])"
  using assms
  by (simp add: handleDelete_confirmed handleDelete_settled_rejected
      handleDelete_settled_unparsed handleDelete_settled_ok handleDelete_settled_not_ok
      handleDelete_catch_eq elapse_visible visible_error fetch_def)

theorem handleDelete_failure_arms_no_timer_witness:
  "timers (handleDelete (\<lambda>prompt. True) chessButton (Inl TypeError) startPage) = []
   \<and> timers (handleDelete (\<lambda>prompt. True) chessButton (Inr (Response False (Inr notRegistered))) startPage) = []
   \<and> timers (handleDelete (\<lambda>prompt. True) chessButton (Inr (Response True (Inr notRegistered))) startPage)
       = [3000]
   \<and> messageDiv (handleDelete (\<lambda>prompt. True) chessButton (Inr (Response False (Inr notRegistered))) startPage)
       = \<lparr>innerText = ''Not registered'', classList = [''error'']\<rparr>
   \<and> visible (messageDiv (elapse 3600000
        (handleDelete (\<lambda>prompt. True) chessButton (Inr (Response False (Inr notRegistered))) startPage)))
   \<and> timers (handleDelete (\<lambda>prompt. True) chessButton (Inr (Response False (Inr notRegistered))) afterSignup)
       = [5000]
   \<and> visible (messageDiv (elapse 3999
        (handleDelete (\<lambda>prompt. True) chessButton (Inr (Response False (Inr notRegistered))) afterSignup)))
   \<and> \<not> visible (messageDiv (elapse 4000
        (handleDelete (\<lambda>prompt. True) chessButton (Inr (Response False (Inr notRegistered))) afterSignup)))"
proof -
  have pending: "timers afterSignup = [5000]" "clock afterSignup = 1000"
    by (simp_all add: afterSignup_eq)
  from handleDelete_failure_arms_no_timer
    [of "\<lambda>prompt. True" chessButton TypeError startPage False notRegistered 3600000]
  have a: "timers (handleDelete (\<lambda>prompt. True) chessButton (Inl TypeError) startPage) = []
   \<and> timers (handleDelete (\<lambda>prompt. True) chessButton (Inr (Response False (Inr notRegistered))) startPage) = []
   \<and> timers (handleDelete (\<lambda>prompt. True) chessButton (Inr (Response True (Inr notRegistered))) startPage)
       = [3000]
   \<and> messageDiv (handleDelete (\<lambda>prompt. True) chessButton (Inr (Response False (Inr notRegistered))) startPage)
       = \<lparr>innerText = ''Not registered'', classList = [''error'']\<rparr>
   \<and> visible (messageDiv (elapse 3600000
        (handleDelete (\<lambda>prompt. True) chessButton (Inr (Response False (Inr notRegistered))) startPage)))"
    by (simp add: startPage_def notRegistered_def)
  from handleDelete_failure_arms_no_timer
    [of "\<lambda>prompt. True" chessButton TypeError afterSignup False notRegistered 3999] pending
  have b: "timers (handleDelete (\<lambda>prompt. True) chessButton (Inr (Response False (Inr notRegistered))) afterSignup)
       = [5000]
   \<and> visible (messageDiv (elapse 3999
        (handleDelete (\<lambda>prompt. True) chessButton (Inr (Response False (Inr notRegistered))) afterSignup)))"
    by simp
  from handleDelete_failure_arms_no_timer
    [of "\<lambda>prompt. True" chessButton TypeError afterSignup False notRegistered 4000] pending
  have c: "\<not> visible (messageDiv (elapse 4000
        (handleDelete (\<lambda>prompt. True) chessButton (Inr (Response False (Inr notRegistered))) afterSignup)))"
    by simp
  from a b c show ?thesis by (intro conjI) simp_all
qed

subsection \<open>Two actions, two timers\<close>

text \<open>
  Claim C9. A run in which the timer of an earlier action hides the message of a later one.
  At time 0 a signup succeeds: its message is shown and a timer is armed, due at 5000. At
  4000 an unregister succeeds: its message replaces the first and a second timer is armed,
  due at 7000. At 5000 the first timer runs: the message area is hidden while it holds the
  unregister's message, two seconds before that message's own timer, which is still pending.
\<close>

theorem earlier_timer_hides_later_message:
  "timers (submit (Inr (Response True (Inr signedUp))) filledPage) = [5000]
   \<and> innerText (messageDiv (elapse 4000 (submit (Inr (Response True (Inr signedUp))) filledPage)))
     = ''Signed up b@x.com for Chess Club''
   \<and> visible (messageDiv (elapse 4000 (submit (Inr (Response True (Inr signedUp))) filledPage)))
   \<and> timers (handleDelete (\<lambda>prompt. True) chessButton (Inr (Response True (Inr unregistered)))
        (elapse 4000 (submit (Inr (Response True (Inr signedUp))) filledPage)))
     = [5000, 7000]
   \<and> messageDiv (handleDelete (\<lambda>prompt. True) chessButton (Inr (Response True (Inr unregistered)))
        (elapse 4000 (submit (Inr (Response True (Inr signedUp))) filledPage)))
     = \<lparr>innerText = ''Unregistered a@x.com from Chess Club'', classList = [''success'']\<rparr>
   \<and> clock (elapse 1000
        (handleDelete (\<lambda>prompt. True) chessButton (Inr (Response True (Inr unregistered)))
          (elapse 4000 (submit (Inr (Response True (Inr signedUp))) filledPage))))
     = 5000
   \<and> messageDiv (elapse 1000
        (handleDelete (\<lambda>prompt. True) chessButton (Inr (Response True (Inr unregistered)))
          (elapse 4000 (submit (Inr (Response True (Inr signedUp))) filledPage))))
     = \<lparr>innerText = ''Unregistered a@x.com from Chess Club'', classList = [''success'', ''hidden'']\<rparr>
   \<and> \<not> visible (messageDiv (elapse 1000
        (handleDelete (\<lambda>prompt. True) chessButton (Inr (Response True (Inr unregistered)))
          (elapse 4000 (submit (Inr (Response True (Inr signedUp))) filledPage)))))
   \<and> timers (elapse 1000
        (handleDelete (\<lambda>prompt. True) chessButton (Inr (Response True (Inr unregistered)))
          (elapse 4000 (submit (Inr (Response True (Inr signedUp))) filledPage))))
     = [7000]"
  by (simp add: submit_eq submit_settled_ok handleDelete_confirmed handleDelete_settled_ok
      elapse_eq fetch_def filledPage_def startPage_def signedUp_def unregistered_def
      message_classList_add_def visible_def)

end
